theory Spec2Isabelle
  imports Complex_Main
begin

section \<open>Tensor scalars\<close>

text \<open>
  The losses of \<^verbatim>\<open>tex/models/structure/losses.py\<close> compute on torch floating-point
  tensors. A scalar is modelled as an extended real with a not-a-number element: the
  finite values are exact reals (rounding, overflow and the sign of zero are not
  modelled), the two infinities and NaN behave as IEEE 754 prescribes. In particular
  \<open>0 / 0\<close> is NaN and \<open>x / 0\<close> is an infinity for \<open>x \<noteq> 0\<close>: division never follows HOL's
  convention \<open>x / 0 = 0\<close>.
\<close>

datatype tfloat = Fin real | PInf | NInf | NaN

instantiation tfloat :: "{zero, one, plus, minus, times, inverse, abs}"
begin

definition zero_tfloat :: tfloat where
  "zero_tfloat = Fin 0"

definition one_tfloat :: tfloat where
  "one_tfloat = Fin 1"

fun plus_tfloat :: "tfloat \<Rightarrow> tfloat \<Rightarrow> tfloat" where
  "plus_tfloat (Fin a) (Fin b) = Fin (a + b)"
| "plus_tfloat NaN _ = NaN"
| "plus_tfloat _ NaN = NaN"
| "plus_tfloat PInf NInf = NaN"
| "plus_tfloat NInf PInf = NaN"
| "plus_tfloat PInf _ = PInf"
| "plus_tfloat _ PInf = PInf"
| "plus_tfloat NInf _ = NInf"
| "plus_tfloat _ NInf = NInf"

fun minus_tfloat :: "tfloat \<Rightarrow> tfloat \<Rightarrow> tfloat" where
  "minus_tfloat (Fin a) (Fin b) = Fin (a - b)"
| "minus_tfloat NaN _ = NaN"
| "minus_tfloat _ NaN = NaN"
| "minus_tfloat PInf PInf = NaN"
| "minus_tfloat NInf NInf = NaN"
| "minus_tfloat PInf _ = PInf"
| "minus_tfloat _ PInf = NInf"
| "minus_tfloat NInf _ = NInf"
| "minus_tfloat _ NInf = PInf"

fun times_tfloat :: "tfloat \<Rightarrow> tfloat \<Rightarrow> tfloat" where
  "times_tfloat (Fin a) (Fin b) = Fin (a * b)"
| "times_tfloat NaN _ = NaN"
| "times_tfloat _ NaN = NaN"
| "times_tfloat PInf (Fin b) = (if b = 0 then NaN else if 0 < b then PInf else NInf)"
| "times_tfloat NInf (Fin b) = (if b = 0 then NaN else if 0 < b then NInf else PInf)"
| "times_tfloat (Fin a) PInf = (if a = 0 then NaN else if 0 < a then PInf else NInf)"
| "times_tfloat (Fin a) NInf = (if a = 0 then NaN else if 0 < a then NInf else PInf)"
| "times_tfloat PInf PInf = PInf"
| "times_tfloat NInf NInf = PInf"
| "times_tfloat PInf NInf = NInf"
| "times_tfloat NInf PInf = NInf"

fun divide_tfloat :: "tfloat \<Rightarrow> tfloat \<Rightarrow> tfloat" where
  "divide_tfloat (Fin a) (Fin b) =
     (if b \<noteq> 0 then Fin (a / b)
      else if a = 0 then NaN else if 0 < a then PInf else NInf)"
| "divide_tfloat NaN _ = NaN"
| "divide_tfloat _ NaN = NaN"
| "divide_tfloat (Fin a) PInf = Fin 0"
| "divide_tfloat (Fin a) NInf = Fin 0"
| "divide_tfloat PInf (Fin b) = (if 0 \<le> b then PInf else NInf)"
| "divide_tfloat NInf (Fin b) = (if 0 \<le> b then NInf else PInf)"
| "divide_tfloat PInf _ = NaN"
| "divide_tfloat NInf _ = NaN"

definition inverse_tfloat :: "tfloat \<Rightarrow> tfloat" where
  "inverse_tfloat x = divide (Fin 1) x"

fun abs_tfloat :: "tfloat \<Rightarrow> tfloat" where
  "abs_tfloat (Fin a) = Fin \<bar>a\<bar>"
| "abs_tfloat PInf = PInf"
| "abs_tfloat NInf = PInf"
| "abs_tfloat NaN = NaN"

instance ..

end

text \<open>
  With NaN absorbing and \<open>PInf + NInf = NaN\<close>, addition is still associative and
  commutative with neutral element \<open>Fin 0\<close>: the type is a commutative monoid, which the
  list sum below needs. This is a property of exact arithmetic, not of rounded sums.
\<close>

lemma tfloat_add_assoc: "(u + v) + w = u + (v + (w::tfloat))"
  by (cases u; cases v; cases w; simp)

lemma tfloat_add_commute: "u + v = v + (u::tfloat)"
  by (cases u; cases v; simp)

lemma tfloat_add_zero: "Fin 0 + u = u"
  by (cases u; simp)

instance tfloat :: comm_monoid_add
proof
  show "u + v + w = u + (v + w)" for u v w :: tfloat
    by (rule tfloat_add_assoc)
  show "u + v = v + u" for u v :: tfloat
    by (rule tfloat_add_commute)
  show "0 + u = u" for u :: tfloat
    unfolding zero_tfloat_def by (rule tfloat_add_zero)
qed

text \<open>\<^verbatim>\<open>x > 0\<close> on a tensor element: false for NaN.\<close>

fun is_pos :: "tfloat \<Rightarrow> bool" where
  "is_pos (Fin a) = (0 < a)"
| "is_pos PInf = True"
| "is_pos NInf = False"
| "is_pos NaN = False"

text \<open>\<^verbatim>\<open>torch.arctan\<close>: the limits at the infinities, NaN kept.\<close>

fun farctan :: "tfloat \<Rightarrow> tfloat" where
  "farctan (Fin a) = Fin (arctan a)"
| "farctan PInf = Fin (pi / 2)"
| "farctan NInf = Fin (- (pi / 2))"
| "farctan NaN = NaN"

text \<open>\<^verbatim>\<open>torch.pow(x, 2)\<close>.\<close>

definition fpow2 :: "tfloat \<Rightarrow> tfloat" where
  "fpow2 x = x * x"

text \<open>
  \<^verbatim>\<open>torch.sum\<close> and \<^verbatim>\<open>torch.mean\<close> of a one-dimensional tensor. The mean divides the
  sum by the number of elements, so the mean of the empty tensor is \<open>0 / 0\<close>, NaN.
\<close>

definition fsum :: "tfloat list \<Rightarrow> tfloat" where
  "fsum xs = sum_list xs"

definition fmean :: "tfloat list \<Rightarrow> tfloat" where
  "fmean xs = fsum xs / Fin (real (length xs))"


text \<open>Element-wise arithmetic on one-dimensional tensors of equal length.\<close>

definition vadd :: "tfloat list \<Rightarrow> tfloat list \<Rightarrow> tfloat list" where
  "vadd xs ys = map2 (+) xs ys"

definition vsub :: "tfloat list \<Rightarrow> tfloat list \<Rightarrow> tfloat list" where
  "vsub xs ys = map2 (-) xs ys"

definition vmul :: "tfloat list \<Rightarrow> tfloat list \<Rightarrow> tfloat list" where
  "vmul xs ys = map2 (\<lambda>x y. x * y) xs ys"

definition vdiv :: "tfloat list \<Rightarrow> tfloat list \<Rightarrow> tfloat list" where
  "vdiv xs ys = map2 (/) xs ys"

text \<open>A scalar on the left or right of a tensor: \<^verbatim>\<open>1 - iou\<close>, \<^verbatim>\<open>x * c\<close>.\<close>

definition rsub :: "tfloat \<Rightarrow> tfloat list \<Rightarrow> tfloat list" where
  "rsub c xs = map (\<lambda>x. c - x) xs"

definition vscale :: "tfloat list \<Rightarrow> tfloat \<Rightarrow> tfloat list" where
  "vscale xs c = map (\<lambda>x. x * c) xs"

section \<open>Boxes, sequences and tensor indexing\<close>

text \<open>
  A box is a row of four scalars; a box sequence is a tensor of shape \<open>[seq_len, 4]\<close>,
  a list of rows.
\<close>

datatype box = Box tfloat tfloat tfloat tfloat

datatype error = IndexError | RuntimeError

text \<open>\<^verbatim>\<open>(target > 0).any(-1)\<close>: per row, whether some coordinate is greater than zero.\<close>

fun any_pos :: "box \<Rightarrow> bool" where
  "any_pos (Box a b c d) = (is_pos a \<or> is_pos b \<or> is_pos c \<or> is_pos d)"

definition row_mask :: "box list \<Rightarrow> bool list" where
  "row_mask target = map any_pos target"

text \<open>
  \<^verbatim>\<open>x[mask]\<close> with a boolean mask over the leading axis: torch raises IndexError when
  the mask's length differs from the length of the indexed axis.
\<close>

definition mask_index :: "'a list \<Rightarrow> bool list \<Rightarrow> error + 'a list" where
  "mask_index xs m =
     (if length m = length xs then Inr (map fst (filter snd (zip xs m)))
      else Inl IndexError)"

text \<open>
  The first three lines of each loss function: both masks are computed from \<open>target\<close>,
  \<open>output\<close> is indexed first.
\<close>

definition drop_padding ::
  "bool \<Rightarrow> box list \<Rightarrow> box list \<Rightarrow> error + (box list \<times> box list)" where
  "drop_padding ignore_zero output target =
     (if ignore_zero then
        (case mask_index output (row_mask target) of
           Inl e \<Rightarrow> Inl e
         | Inr output' \<Rightarrow>
             (case mask_index target (row_mask target) of
                Inl e \<Rightarrow> Inl e
              | Inr target' \<Rightarrow> Inr (output', target')))
      else Inr (output, target))"

text \<open>
  The geometry operations are applied to \<open>target\<close> and \<open>output\<close> position by position:
  sequences of equal length pair up. What the library does with sequences of different
  lengths is not in the sources at hand; the other branches follow torch's element-wise
  operators (a sequence of length one is repeated along the other, any other pair of
  lengths raises RuntimeError) as an assumption, and no result below enters them: every
  theorem is about sequences of equal length.
\<close>

definition expand2 :: "'a list \<Rightarrow> 'b list \<Rightarrow> error + ('a list \<times> 'b list)" where
  "expand2 xs ys =
     (if length xs = length ys then Inr (xs, ys)
      else if length xs = 1 then Inr (replicate (length ys) (hd xs), ys)
      else if length ys = 1 then Inr (xs, replicate (length xs) (hd ys))
      else Inl RuntimeError)"

section \<open>The geometry library\<close>

text \<open>
  \<^verbatim>\<open>tex.core.geometry\<close> is imported by the losses but is not part of the sources at
  hand, so its operations are a parameter of every loss function. The operations the
  losses apply per pair or per box are functions on boxes; \<^verbatim>\<open>geo.mbr\<close> with one
  argument and \<^verbatim>\<open>geo.sum_si\<close> take a whole sequence.
\<close>

record geometry =
  geo_iou :: "box \<Rightarrow> box \<Rightarrow> tfloat"
  geo_mbr :: "box \<Rightarrow> box \<Rightarrow> box"
  geo_diag :: "box \<Rightarrow> tfloat"
  geo_center_distance :: "box \<Rightarrow> box \<Rightarrow> tfloat"
  geo_aspect_ratio :: "box \<Rightarrow> tfloat"
  geo_area :: "box \<Rightarrow> tfloat"
  geo_mbr_seq :: "box list \<Rightarrow> box"
  geo_sum_si :: "box list \<Rightarrow> tfloat"

section \<open>The loss functions\<close>

definition iou_loss :: "geometry \<Rightarrow> box list \<Rightarrow> box list \<Rightarrow> bool \<Rightarrow> error + tfloat" where
  "iou_loss g output target ignore_zero =
     (case drop_padding ignore_zero output target of
        Inl e \<Rightarrow> Inl e
      | Inr (output', target') \<Rightarrow>
          (case expand2 target' output' of
             Inl e \<Rightarrow> Inl e
           | Inr (t, p) \<Rightarrow>
               (let iou = map2 (geo_iou g) t p;
                    loss = rsub 1 iou
                in Inr (fmean loss))))"

definition distance_iou_loss ::
  "geometry \<Rightarrow> box list \<Rightarrow> box list \<Rightarrow> bool \<Rightarrow> error + tfloat" where
  "distance_iou_loss g output target ignore_zero =
     (case drop_padding ignore_zero output target of
        Inl e \<Rightarrow> Inl e
      | Inr (output', target') \<Rightarrow>
          (case expand2 target' output' of
             Inl e \<Rightarrow> Inl e
           | Inr (t, p) \<Rightarrow>
               (let iou = map2 (geo_iou g) t p;
                    mbr_diag = map (geo_diag g) (map2 (geo_mbr g) t p);
                    dist_center = map2 (geo_center_distance g) t p;
                    loss = vadd (rsub 1 iou) (vdiv dist_center mbr_diag)
                in Inr (fmean loss))))"

text \<open>
  Lines 33 to 41 of \<^verbatim>\<open>complete_iou_loss\<close>, repeated as lines 55 to 63 of
  \<^verbatim>\<open>tile_iou_loss\<close>: the tensor \<open>loss\<close> of per-position terms.
\<close>

definition complete_iou_terms :: "geometry \<Rightarrow> box list \<Rightarrow> box list \<Rightarrow> tfloat list" where
  "complete_iou_terms g t p =
     (let iou = map2 (geo_iou g) t p;
          mbr_diag = map (geo_diag g) (map2 (geo_mbr g) t p);
          dist_center = map2 (geo_center_distance g) t p;
          t_asp = map farctan (map (geo_aspect_ratio g) t);
          p_asp = map farctan (map (geo_aspect_ratio g) p);
          value = vscale (map fpow2 (vsub t_asp p_asp)) (Fin (4 / (pi * pi)));
          alpha = vdiv value (vadd (rsub 1 iou) value)
      in vadd (vadd (rsub 1 iou) (vdiv dist_center mbr_diag)) (vmul alpha value))"

definition complete_iou_loss ::
  "geometry \<Rightarrow> box list \<Rightarrow> box list \<Rightarrow> bool \<Rightarrow> error + tfloat" where
  "complete_iou_loss g output target ignore_zero =
     (case drop_padding ignore_zero output target of
        Inl e \<Rightarrow> Inl e
      | Inr (output', target') \<Rightarrow>
          (case expand2 target' output' of
             Inl e \<Rightarrow> Inl e
           | Inr (t, p) \<Rightarrow> Inr (fmean (complete_iou_terms g t p))))"

text \<open>Lines 64 to 74 of \<^verbatim>\<open>tile_iou_loss\<close>: the sequence term \<open>seq_loss\<close>.\<close>

definition seq_loss :: "geometry \<Rightarrow> box list \<Rightarrow> box list \<Rightarrow> tfloat" where
  "seq_loss g output target =
     (let p_mbr = geo_mbr_seq g output; p_ssi = geo_sum_si g output;
          t_mbr = geo_mbr_seq g target; t_ssi = geo_sum_si g target;
          p_dist = \<bar>1 - fsum (map (geo_area g) output) / geo_area g p_mbr\<bar>;
          t_dist = \<bar>1 - fsum (map (geo_area g) target) / geo_area g t_mbr\<bar>;
          p_tile = p_ssi / geo_area g p_mbr + p_dist;
          t_tile = t_ssi / geo_area g t_mbr + t_dist;
          seq_iou = geo_iou g p_mbr t_mbr
      in 1 - seq_iou + \<bar>p_tile - t_tile\<bar>)"

definition tile_iou_loss ::
  "geometry \<Rightarrow> box list \<Rightarrow> box list \<Rightarrow> bool \<Rightarrow> error + tfloat" where
  "tile_iou_loss g output target ignore_zero =
     (case drop_padding ignore_zero output target of
        Inl e \<Rightarrow> Inl e
      | Inr (output', target') \<Rightarrow>
          (case expand2 target' output' of
             Inl e \<Rightarrow> Inl e
           | Inr (t, p) \<Rightarrow>
               Inr (fmean (complete_iou_terms g t p) + seq_loss g output' target')))"

text \<open>
  \<^verbatim>\<open>cls_loss\<close> hands its arguments to \<^verbatim>\<open>F.cross_entropy\<close>, a function of torch: it and
  the conversion \<^verbatim>\<open>target.to(torch.long)\<close> are parameters.
\<close>

record ('lg, 'lb, 'll, 'w) functional =
  cross_entropy :: "'lg \<Rightarrow> 'll \<Rightarrow> int \<Rightarrow> real \<Rightarrow> 'w option \<Rightarrow> error + tfloat"
  to_long :: "'lb \<Rightarrow> 'll"

definition cls_loss ::
  "('lg, 'lb, 'll, 'w) functional \<Rightarrow> 'lg \<Rightarrow> 'lb \<Rightarrow> int \<Rightarrow> real \<Rightarrow> 'w option \<Rightarrow> error + tfloat" where
  "cls_loss F output target pad_idx smoothing weight =
     cross_entropy F output (to_long F target) pad_idx smoothing weight"

text \<open>
  \<^verbatim>\<open>batch_mean\<close>: the list comprehension runs over \<open>range(targets.size(0))\<close>, reads
  \<open>outputs[batch]\<close> (IndexError past the end of \<open>outputs\<close>) and stops at the first
  exception; \<^verbatim>\<open>torch.stack\<close> raises RuntimeError on the empty list.
\<close>

fun batch_losses ::
  "('a \<Rightarrow> 'b \<Rightarrow> error + tfloat) \<Rightarrow> 'a list \<Rightarrow> 'b list \<Rightarrow> error + tfloat list" where
  "batch_losses loss_func outputs [] = Inr []"
| "batch_losses loss_func [] (t # targets) = Inl IndexError"
| "batch_losses loss_func (p # outputs) (t # targets) =
     (case loss_func p t of
        Inl e \<Rightarrow> Inl e
      | Inr v \<Rightarrow>
          (case batch_losses loss_func outputs targets of
             Inl e \<Rightarrow> Inl e
           | Inr vs \<Rightarrow> Inr (v # vs)))"

definition batch_mean ::
  "('a \<Rightarrow> 'b \<Rightarrow> error + tfloat) \<Rightarrow> 'a list \<Rightarrow> 'b list \<Rightarrow> error + tfloat" where
  "batch_mean loss_func outputs targets =
     (case batch_losses loss_func outputs targets of
        Inl e \<Rightarrow> Inl e
      | Inr vs \<Rightarrow> if vs = [] then Inl RuntimeError else Inr (fmean vs))"

definition structure_loss ::
  "('lg, 'lb, 'll, 'w) functional \<Rightarrow> geometry \<Rightarrow> 'lg list \<times> box list list \<Rightarrow>
   'lb list \<times> box list list \<Rightarrow> bool \<Rightarrow> int \<Rightarrow> real \<Rightarrow> 'w option \<Rightarrow>
   error + (tfloat \<times> tfloat)" where
  "structure_loss F g outputs targets ignore_zero pad_idx smoothing weight =
     (case (outputs, targets) of
        ((cls_output, box_output), (cls_target, box_target)) \<Rightarrow>
          (case batch_mean (\<lambda>p t. cls_loss F p t pad_idx smoothing weight)
                  cls_output cls_target of
             Inl e \<Rightarrow> Inl e
           | Inr cls_loss_value \<Rightarrow>
               (case batch_mean (\<lambda>p t. tile_iou_loss g p t ignore_zero)
                       box_output box_target of
                  Inl e \<Rightarrow> Inl e
                | Inr iou_loss_value \<Rightarrow> Inr (cls_loss_value, iou_loss_value))))"


section \<open>The specification's vocabulary\<close>

text \<open>The positions that survive padding filtering, as (target, prediction) pairs.\<close>

definition kept_pairs :: "bool \<Rightarrow> box list \<Rightarrow> box list \<Rightarrow> (box \<times> box) list" where
  "kept_pairs ignore_zero target output =
     (if ignore_zero then filter (\<lambda>(t, p). any_pos t) (zip target output)
      else zip target output)"

text \<open>The all-zero padding sentinel, and the subsequence without sentinel target rows.\<close>

definition zero_box :: box where
  "zero_box = Box 0 0 0 0"

definition without_sentinels :: "box list \<Rightarrow> box list \<Rightarrow> (box \<times> box) list" where
  "without_sentinels target output = filter (\<lambda>(t, p). t \<noteq> zero_box) (zip target output)"

text \<open>\<^verbatim>\<open>x <= 0\<close> on a scalar, and rows whose four coordinates are all at most zero.\<close>

fun is_nonpos :: "tfloat \<Rightarrow> bool" where
  "is_nonpos (Fin a) = (a \<le> 0)"
| "is_nonpos NInf = True"
| "is_nonpos PInf = False"
| "is_nonpos NaN = False"

fun all_nonpos :: "box \<Rightarrow> bool" where
  "all_nonpos (Box a b c d) = (is_nonpos a \<and> is_nonpos b \<and> is_nonpos c \<and> is_nonpos d)"

text \<open>The per-position terms of section 4.2 of the specification.\<close>

definition iou_term :: "geometry \<Rightarrow> box \<Rightarrow> box \<Rightarrow> tfloat" where
  "iou_term g t p = 1 - geo_iou g t p"

definition dist_term :: "geometry \<Rightarrow> box \<Rightarrow> box \<Rightarrow> tfloat" where
  "dist_term g t p = geo_center_distance g t p / geo_diag g (geo_mbr g t p)"

definition diou_term :: "geometry \<Rightarrow> box \<Rightarrow> box \<Rightarrow> tfloat" where
  "diou_term g t p = iou_term g t p + dist_term g t p"

definition aspect_v :: "geometry \<Rightarrow> box \<Rightarrow> box \<Rightarrow> tfloat" where
  "aspect_v g t p =
     Fin (4 / pi\<^sup>2) *
     fpow2 (farctan (geo_aspect_ratio g t) - farctan (geo_aspect_ratio g p))"

definition alpha :: "geometry \<Rightarrow> box \<Rightarrow> box \<Rightarrow> tfloat" where
  "alpha g t p = aspect_v g t p / (iou_term g t p + aspect_v g t p)"

definition ciou_term :: "geometry \<Rightarrow> box \<Rightarrow> box \<Rightarrow> tfloat" where
  "ciou_term g t p = iou_term g t p + dist_term g t p + alpha g t p * aspect_v g t p"

text \<open>The tile score of a sequence \<open>S\<close>, in the specification's words.\<close>

definition coverage_gap :: "geometry \<Rightarrow> box list \<Rightarrow> tfloat" where
  "coverage_gap g S = \<bar>1 - fsum (map (geo_area g) S) / geo_area g (geo_mbr_seq g S)\<bar>"

definition tile_score :: "geometry \<Rightarrow> box list \<Rightarrow> tfloat" where
  "tile_score g S = geo_sum_si g S / geo_area g (geo_mbr_seq g S) + coverage_gap g S"

section \<open>A geometry library after the specification\<close>

text \<open>
  Modelled from the spec: \<^verbatim>\<open>torch.maximum\<close>, \<^verbatim>\<open>torch.minimum\<close> and \<^verbatim>\<open>torch.sqrt\<close> on
  scalars, which the geometry below needs; NaN propagates.
\<close>

fun fmax :: "tfloat \<Rightarrow> tfloat \<Rightarrow> tfloat" where
  "fmax (Fin a) (Fin b) = Fin (max a b)"
| "fmax NaN _ = NaN"
| "fmax _ NaN = NaN"
| "fmax PInf _ = PInf"
| "fmax _ PInf = PInf"
| "fmax NInf y = y"
| "fmax x NInf = x"

fun fmin :: "tfloat \<Rightarrow> tfloat \<Rightarrow> tfloat" where
  "fmin (Fin a) (Fin b) = Fin (min a b)"
| "fmin NaN _ = NaN"
| "fmin _ NaN = NaN"
| "fmin NInf _ = NInf"
| "fmin _ NInf = NInf"
| "fmin PInf y = y"
| "fmin x PInf = x"

fun fsqrt :: "tfloat \<Rightarrow> tfloat" where
  "fsqrt (Fin a) = (if a < 0 then NaN else Fin (sqrt a))"
| "fsqrt PInf = PInf"
| "fsqrt NInf = NaN"
| "fsqrt NaN = NaN"

text \<open>
  Modelled from the spec: the width and height of a box of \<^verbatim>\<open>tex.core.geometry\<close>,
  which is not among the sources. Section 3 gives a box as \<open>(x1, y1, x2, y2)\<close>.
\<close>

fun box_width :: "box \<Rightarrow> tfloat" where
  "box_width (Box x1 y1 x2 y2) = x2 - x1"

fun box_height :: "box \<Rightarrow> tfloat" where
  "box_height (Box x1 y1 x2 y2) = y2 - y1"

text \<open>
  Modelled from the spec: \<^verbatim>\<open>geo.area\<close> (section 4.1: zero iff the width or the height
  is zero).
\<close>

definition spec_area :: "box \<Rightarrow> tfloat" where
  "spec_area b = box_width b * box_height b"

text \<open>
  Modelled from the spec: the intersection area of two boxes, which \<^verbatim>\<open>geo.iou\<close> and
  \<^verbatim>\<open>geo.sum_si\<close> are defined from; zero when the boxes do not overlap.
\<close>

fun spec_inter :: "box \<Rightarrow> box \<Rightarrow> tfloat" where
  "spec_inter (Box a1 b1 a2 b2) (Box c1 d1 c2 d2) =
     fmax 0 (fmin a2 c2 - fmax a1 c1) * fmax 0 (fmin b2 d2 - fmax b1 d1)"

text \<open>
  Modelled from the spec: \<^verbatim>\<open>geo.iou\<close> (section 4.1: intersection area over union area;
  0 when the boxes do not overlap or either is degenerate).
\<close>

definition spec_iou :: "box \<Rightarrow> box \<Rightarrow> tfloat" where
  "spec_iou a b =
     (let i = spec_inter a b
      in if i = 0 then 0 else i / (spec_area a + spec_area b - i))"

text \<open>
  Modelled from the spec: \<^verbatim>\<open>geo.mbr\<close> with two arguments (section 4.1: the minimum
  bounding rectangle enclosing both boxes).
\<close>

fun spec_mbr :: "box \<Rightarrow> box \<Rightarrow> box" where
  "spec_mbr (Box a1 b1 a2 b2) (Box c1 d1 c2 d2) =
     Box (fmin a1 c1) (fmin b1 d1) (fmax a2 c2) (fmax b2 d2)"

text \<open>
  Modelled from the spec: \<^verbatim>\<open>geo.mbr\<close> with one argument (section 4.2: the minimum
  bounding rectangle of all boxes of the sequence).
\<close>

definition spec_mbr_seq :: "box list \<Rightarrow> box" where
  "spec_mbr_seq bs = fold spec_mbr bs (Box PInf PInf NInf NInf)"

text \<open>
  Modelled from the spec: \<^verbatim>\<open>geo.diag\<close> (section 4.1: the Euclidean length of the box's
  diagonal).
\<close>

definition spec_diag :: "box \<Rightarrow> tfloat" where
  "spec_diag b = fsqrt (fpow2 (box_width b) + fpow2 (box_height b))"

text \<open>
  Modelled from the spec: \<^verbatim>\<open>geo.center_distance\<close> (section 4.1: the Euclidean distance
  between the two centers).
\<close>

fun spec_center_distance :: "box \<Rightarrow> box \<Rightarrow> tfloat" where
  "spec_center_distance (Box a1 b1 a2 b2) (Box c1 d1 c2 d2) =
     fsqrt (fpow2 ((a1 + a2) / Fin 2 - (c1 + c2) / Fin 2) +
            fpow2 ((b1 + b2) / Fin 2 - (d1 + d2) / Fin 2))"

text \<open>Modelled from the spec: \<^verbatim>\<open>geo.aspect_ratio\<close> (section 4.1: width / height).\<close>

definition spec_aspect_ratio :: "box \<Rightarrow> tfloat" where
  "spec_aspect_ratio b = box_width b / box_height b"

text \<open>
  Modelled from the spec: \<^verbatim>\<open>geo.sum_si\<close> (section 4.1: the sum of the pairwise
  intersection areas across the sequence), each pair of positions counted once.
\<close>

fun spec_sum_si :: "box list \<Rightarrow> tfloat" where
  "spec_sum_si [] = 0"
| "spec_sum_si (b # bs) = fsum (map (spec_inter b) bs) + spec_sum_si bs"

text \<open>Modelled from the spec: the operations of \<^verbatim>\<open>tex.core.geometry\<close>, collected.\<close>

definition spec_geo :: geometry where
  "spec_geo =
     \<lparr> geo_iou = spec_iou, geo_mbr = spec_mbr, geo_diag = spec_diag,
       geo_center_distance = spec_center_distance,
       geo_aspect_ratio = spec_aspect_ratio, geo_area = spec_area,
       geo_mbr_seq = spec_mbr_seq, geo_sum_si = spec_sum_si \<rparr>"

text \<open>
  A non-degenerate box of this geometry: finite corners, positive width and height.
\<close>

fun nondegenerate :: "box \<Rightarrow> bool" where
  "nondegenerate (Box (Fin x1) (Fin y1) (Fin x2) (Fin y2)) = (x1 < x2 \<and> y1 < y2)"
| "nondegenerate _ = False"

section \<open>Padding filtering and the per-position form of the losses\<close>

lemma mask_index_zip:
  "length xs = length ts \<Longrightarrow>
   mask_index xs (map P ts) = Inr (map snd (filter (\<lambda>(t, x). P t) (zip ts xs)))"
  unfolding mask_index_def
  by (induction xs ts rule: list_induct2) auto

lemma mask_index_self:
  "length xs = length ts \<Longrightarrow>
   mask_index ts (map P ts) = Inr (map fst (filter (\<lambda>(t, x). P t) (zip ts xs)))"
  unfolding mask_index_def
  by (induction xs ts rule: list_induct2) auto

lemma drop_padding_eq:
  "length output = length target \<Longrightarrow>
   drop_padding ignore_zero output target =
     Inr (map snd (kept_pairs ignore_zero target output),
          map fst (kept_pairs ignore_zero target output))"
proof -
  assume len: "length output = length target"
  have a: "mask_index output (map any_pos target) =
      Inr (map snd (filter (\<lambda>(t, x). any_pos t) (zip target output)))"
    using len by (rule mask_index_zip)
  have b: "mask_index target (map any_pos target) =
      Inr (map fst (filter (\<lambda>(t, x). any_pos t) (zip target output)))"
    using len by (rule mask_index_self)
  show ?thesis
    using len by (simp add: drop_padding_def kept_pairs_def row_mask_def a b)
qed

lemma expand2_pairs: "expand2 (map fst zs) (map snd zs) = Inr (map fst zs, map snd zs)"
  by (simp add: expand2_def)

lemma times_tfloat_commute: "(a::tfloat) * b = b * a"
  by (cases a; cases b) simp_all

lemma map2_pairs: "map2 f (map a zs) (map b zs) = map (\<lambda>z. f (a z) (b z)) zs"
  by (induction zs) simp_all

lemma complete_iou_terms_pairs:
  "complete_iou_terms g (map fst zs) (map snd zs) = map (\<lambda>(t, p). ciou_term g t p) zs"
  unfolding complete_iou_terms_def Let_def vadd_def vsub_def vmul_def vdiv_def rsub_def vscale_def
  by (induction zs) (auto simp: ciou_term_def iou_term_def dist_term_def alpha_def aspect_v_def times_tfloat_commute power2_eq_square)


lemma iou_terms_pairs:
  "rsub 1 (map2 (geo_iou g) (map fst zs) (map snd zs)) = map (\<lambda>(t, p). iou_term g t p) zs"
  unfolding rsub_def by (induction zs) (auto simp: iou_term_def)

lemma diou_terms_pairs:
  "vadd (rsub 1 (map2 (geo_iou g) (map fst zs) (map snd zs)))
        (vdiv (map2 (geo_center_distance g) (map fst zs) (map snd zs))
              (map (geo_diag g) (map2 (geo_mbr g) (map fst zs) (map snd zs)))) =
   map (\<lambda>(t, p). diou_term g t p) zs"
  unfolding rsub_def vadd_def vdiv_def
  by (induction zs) (auto simp: diou_term_def iou_term_def dist_term_def)

lemma iou_loss_pairs:
  "length output = length target \<Longrightarrow>
   iou_loss g output target ignore_zero =
     Inr (fmean (map (\<lambda>(t, p). iou_term g t p) (kept_pairs ignore_zero target output)))"
  by (simp add: iou_loss_def drop_padding_eq expand2_pairs iou_terms_pairs)

lemma distance_iou_loss_pairs:
  "length output = length target \<Longrightarrow>
   distance_iou_loss g output target ignore_zero =
     Inr (fmean (map (\<lambda>(t, p). diou_term g t p) (kept_pairs ignore_zero target output)))"
  by (simp add: distance_iou_loss_def drop_padding_eq expand2_pairs diou_terms_pairs del: map_map)

lemma complete_iou_loss_pairs:
  "length output = length target \<Longrightarrow>
   complete_iou_loss g output target ignore_zero =
     Inr (fmean (map (\<lambda>(t, p). ciou_term g t p) (kept_pairs ignore_zero target output)))"
  by (simp add: complete_iou_loss_def drop_padding_eq expand2_pairs complete_iou_terms_pairs)

lemma tile_iou_loss_pairs:
  "length output = length target \<Longrightarrow>
   tile_iou_loss g output target ignore_zero =
     Inr (fmean (map (\<lambda>(t, p). ciou_term g t p) (kept_pairs ignore_zero target output)) +
          seq_loss g (map snd (kept_pairs ignore_zero target output))
                     (map fst (kept_pairs ignore_zero target output)))"
  by (simp add: tile_iou_loss_def drop_padding_eq expand2_pairs complete_iou_terms_pairs)

lemma seq_loss_tile_score:
  "seq_loss g P T =
     1 - geo_iou g (geo_mbr_seq g P) (geo_mbr_seq g T) + \<bar>tile_score g P - tile_score g T\<bar>"
  by (simp add: seq_loss_def tile_score_def coverage_gap_def Let_def)

text \<open>Unfolding rules for evaluating the losses on concrete boxes.\<close>

lemmas spec_geo_simps =
  spec_geo_def spec_iou_def spec_area_def spec_diag_def spec_aspect_ratio_def
  spec_mbr_seq_def fpow2_def fsum_def fmean_def zero_tfloat_def one_tfloat_def

lemmas term_simps =
  iou_term_def dist_term_def diou_term_def aspect_v_def alpha_def ciou_term_def
  tile_score_def coverage_gap_def

section \<open>The tiling loss\<close>

text \<open>
  Claim C1. For a prediction and a target sequence of equal length, \<^verbatim>\<open>tile_iou_loss\<close>
  returns the mean, over the positions that survive padding filtering, of the
  per-position terms of \<^verbatim>\<open>complete_iou_loss\<close>, plus one minus the IoU of the bounding
  rectangles of the whole prediction and the whole target sequence, plus the absolute
  difference of the two tile scores; the tile score of a sequence is
  \<open>sum_si / area(mbr) + |1 - sum of areas / area(mbr)|\<close>. The two sequence terms are
  outside the mean: they are added once per sample. The mean is the value
  \<^verbatim>\<open>complete_iou_loss\<close> returns on the same input.
\<close>

theorem tile_iou_loss_formula:
  assumes "length output = length target"
  shows "tile_iou_loss g output target ignore_zero =
           (let zs = kept_pairs ignore_zero target output;
                P = map snd zs; T = map fst zs
            in Inr (fmean (map (\<lambda>(t, p). ciou_term g t p) zs) +
                    (1 - geo_iou g (geo_mbr_seq g P) (geo_mbr_seq g T) +
                     \<bar>tile_score g P - tile_score g T\<bar>))) \<and>
         complete_iou_loss g output target ignore_zero =
           Inr (fmean (map (\<lambda>(t, p). ciou_term g t p)
                  (kept_pairs ignore_zero target output)))"
  using assms
  by (simp add: tile_iou_loss_pairs complete_iou_loss_pairs seq_loss_tile_score Let_def)


theorem tile_iou_loss_formula_witness:
  "length [Box (Fin 1) (Fin 1) (Fin 3) (Fin 3)] = length [Box (Fin 0) (Fin 0) (Fin 4) (Fin 4)] \<and>
   tile_iou_loss spec_geo [Box (Fin 1) (Fin 1) (Fin 3) (Fin 3)]
     [Box (Fin 0) (Fin 0) (Fin 4) (Fin 4)] True = Inr (Fin (3 / 2)) \<and>
   complete_iou_loss spec_geo [Box (Fin 1) (Fin 1) (Fin 3) (Fin 3)]
     [Box (Fin 0) (Fin 0) (Fin 4) (Fin 4)] True = Inr (Fin (3 / 4))"
  using tile_iou_loss_formula [of "[Box (Fin 1) (Fin 1) (Fin 3) (Fin 3)]"
      "[Box (Fin 0) (Fin 0) (Fin 4) (Fin 4)]" spec_geo True]
  by (simp add: kept_pairs_def spec_geo_simps term_simps)

section \<open>Padding filtering\<close>

lemma zip_fst_snd: "zip (map fst zs) (map snd zs) = zs"
  by (induction zs) auto

lemma kept_pairs_False_pairs: "kept_pairs False (map fst zs) (map snd zs) = zs"
  by (simp add: kept_pairs_def zip_fst_snd)

lemma kept_pairs_fst: "length ps = length ts \<Longrightarrow>
   map fst (kept_pairs True ts ps) = filter any_pos ts"
  unfolding kept_pairs_def
  by (induction ps ts rule: list_induct2) auto

text \<open>
  Claim C2 as stated fails. It has a position discarded exactly when its target row is the
  all-zero sentinel, so that the loss with \<open>ignore_zero\<close> would be the loss of the
  subsequence without sentinel target rows. The target row \<open>(-2, -2, -1, -1)\<close> is not the
  sentinel, yet the mask \<^verbatim>\<open>(target > 0).any(-1)\<close> discards it: \<^verbatim>\<open>iou_loss\<close> averages
  over no position and returns NaN, where the loss of the subsequence without sentinel
  rows is 0.
\<close>

theorem padding_sentinel_counterexample:
  "iou_loss spec_geo [Box (Fin (-2)) (Fin (-2)) (Fin (-1)) (Fin (-1))]
     [Box (Fin (-2)) (Fin (-2)) (Fin (-1)) (Fin (-1))] True = Inr NaN \<and>
   iou_loss spec_geo
     (map snd (without_sentinels [Box (Fin (-2)) (Fin (-2)) (Fin (-1)) (Fin (-1))]
                 [Box (Fin (-2)) (Fin (-2)) (Fin (-1)) (Fin (-1))]))
     (map fst (without_sentinels [Box (Fin (-2)) (Fin (-2)) (Fin (-1)) (Fin (-1))]
                 [Box (Fin (-2)) (Fin (-2)) (Fin (-1)) (Fin (-1))])) False = Inr (Fin 0)"
  by (simp add: iou_loss_pairs kept_pairs_def without_sentinels_def zero_box_def
      spec_geo_simps term_simps)

text \<open>
  Claim C2, amended. With \<open>ignore_zero\<close>, a position is discarded from both sequences
  exactly when its target row has no coordinate greater than zero (the all-zero sentinel
  is such a row); the rows kept are decided by the target alone; and each of the four
  losses equals the same loss, without filtering, of the subsequence that is kept.
  Without \<open>ignore_zero\<close>, every position enters the loss.
\<close>

theorem padding_filter_subsequence:
  assumes "length output = length target"
  shows "(let zs = kept_pairs True target output; P = map snd zs; T = map fst zs
          in T = filter any_pos target \<and>
             iou_loss g output target True = iou_loss g P T False \<and>
             distance_iou_loss g output target True = distance_iou_loss g P T False \<and>
             complete_iou_loss g output target True = complete_iou_loss g P T False \<and>
             tile_iou_loss g output target True = tile_iou_loss g P T False) \<and>
         iou_loss g output target False =
           Inr (fmean (map (\<lambda>(t, p). iou_term g t p) (zip target output))) \<and>
         distance_iou_loss g output target False =
           Inr (fmean (map (\<lambda>(t, p). diou_term g t p) (zip target output))) \<and>
         complete_iou_loss g output target False =
           Inr (fmean (map (\<lambda>(t, p). ciou_term g t p) (zip target output))) \<and>
         tile_iou_loss g output target False =
           Inr (fmean (map (\<lambda>(t, p). ciou_term g t p) (zip target output)) +
                seq_loss g output target)"
proof -
  let ?zs = "kept_pairs True target output"
  have len: "length (map snd ?zs) = length (map fst ?zs)" by simp
  have all: "kept_pairs False target output = zip target output"
    by (simp add: kept_pairs_def)
  have fs: "map snd (zip target output) = output" "map fst (zip target output) = target"
    using assms by simp_all
  have a: "iou_loss g output target True = iou_loss g (map snd ?zs) (map fst ?zs) False"
    by (simp only: iou_loss_pairs [OF len] iou_loss_pairs [OF assms] kept_pairs_False_pairs)
  have b: "distance_iou_loss g output target True =
      distance_iou_loss g (map snd ?zs) (map fst ?zs) False"
    by (simp only: distance_iou_loss_pairs [OF len] distance_iou_loss_pairs [OF assms]
        kept_pairs_False_pairs)
  have c: "complete_iou_loss g output target True =
      complete_iou_loss g (map snd ?zs) (map fst ?zs) False"
    by (simp only: complete_iou_loss_pairs [OF len] complete_iou_loss_pairs [OF assms]
        kept_pairs_False_pairs)
  have d: "tile_iou_loss g output target True =
      tile_iou_loss g (map snd ?zs) (map fst ?zs) False"
    by (simp only: tile_iou_loss_pairs [OF len] tile_iou_loss_pairs [OF assms]
        kept_pairs_False_pairs)
  have e: "map fst ?zs = filter any_pos target"
    using assms by (rule kept_pairs_fst)
  show ?thesis
    unfolding Let_def
    using a b c d e
    by (simp only: iou_loss_pairs [OF assms] distance_iou_loss_pairs [OF assms]
        complete_iou_loss_pairs [OF assms] tile_iou_loss_pairs [OF assms] all fs simp_thms)
qed

theorem padding_filter_subsequence_witness:
  "length [Box (Fin 5) (Fin 5) (Fin 6) (Fin 6), Box (Fin 1) (Fin 1) (Fin 3) (Fin 3)] =
   length [Box (Fin 0) (Fin 0) (Fin 0) (Fin 0), Box (Fin 0) (Fin 0) (Fin 4) (Fin 4)] \<and>
   iou_loss spec_geo [Box (Fin 5) (Fin 5) (Fin 6) (Fin 6), Box (Fin 1) (Fin 1) (Fin 3) (Fin 3)]
     [Box (Fin 0) (Fin 0) (Fin 0) (Fin 0), Box (Fin 0) (Fin 0) (Fin 4) (Fin 4)] True =
   iou_loss spec_geo [Box (Fin 1) (Fin 1) (Fin 3) (Fin 3)]
     [Box (Fin 0) (Fin 0) (Fin 4) (Fin 4)] False \<and>
   iou_loss spec_geo [Box (Fin 5) (Fin 5) (Fin 6) (Fin 6), Box (Fin 1) (Fin 1) (Fin 3) (Fin 3)]
     [Box (Fin 0) (Fin 0) (Fin 0) (Fin 0), Box (Fin 0) (Fin 0) (Fin 4) (Fin 4)] False =
   Inr (Fin (7 / 8))"
  using padding_filter_subsequence
    [of "[Box (Fin 5) (Fin 5) (Fin 6) (Fin 6), Box (Fin 1) (Fin 1) (Fin 3) (Fin 3)]"
        "[Box (Fin 0) (Fin 0) (Fin 0) (Fin 0), Box (Fin 0) (Fin 0) (Fin 4) (Fin 4)]" spec_geo]
  by (simp add: Let_def kept_pairs_def spec_geo_simps term_simps)


lemma zip_nth_map:
  "length ps = length ts \<Longrightarrow> zip ts ps = map (\<lambda>i. (ts ! i, ps ! i)) [0..<length ts]"
  by (rule nth_equalityI) simp_all

lemma kept_pairs_index:
  assumes "length ps = length ts"
  shows "kept_pairs True ts ps =
         map (\<lambda>i. (ts ! i, ps ! i)) (filter (\<lambda>i. any_pos (ts ! i)) [0..<length ts])"
proof -
  have "filter (\<lambda>(t, p). any_pos t) (map (\<lambda>i. (ts ! i, ps ! i)) [0..<length ts]) =
        map (\<lambda>i. (ts ! i, ps ! i)) (filter (\<lambda>i. any_pos (ts ! i)) [0..<length ts])"
    by (simp add: filter_map comp_def)
  then show ?thesis
    using zip_nth_map [OF assms] by (simp add: kept_pairs_def)
qed

lemma filter_update_dropped:
  "i < length xs \<Longrightarrow> \<not> P (xs ! i) \<Longrightarrow> \<not> P y \<Longrightarrow> filter P (xs[i := y]) = filter P xs"
proof (induction xs arbitrary: i)
  case Nil
  then show ?case by simp
next
  case (Cons x xs)
  then show ?case by (cases i) auto
qed

lemma is_nonpos_not_is_pos: "is_nonpos x \<Longrightarrow> \<not> is_pos x"
  by (cases x) auto

lemma all_nonpos_not_any_pos: "all_nonpos b \<Longrightarrow> \<not> any_pos b"
  by (cases b) (auto dest: is_nonpos_not_is_pos)

lemma not_any_pos_zero_box: "\<not> any_pos zero_box"
  by (simp add: zero_box_def zero_tfloat_def)

lemma kept_pairs_sentinel:
  assumes "length ps = length ts" "i < length ts" "\<not> any_pos (ts ! i)"
  shows "kept_pairs True (ts[i := zero_box]) ps = kept_pairs True ts ps"
proof -
  have "zip (ts[i := zero_box]) ps = (zip ts ps)[i := (zero_box, ps ! i)]"
    using assms by (simp add: zip_update [symmetric])
  moreover have "filter (\<lambda>(t, p). any_pos t) ((zip ts ps)[i := (zero_box, ps ! i)]) =
      filter (\<lambda>(t, p). any_pos t) (zip ts ps)"
    using assms by (intro filter_update_dropped) (simp_all add: not_any_pos_zero_box)
  ultimately show ?thesis
    by (simp add: kept_pairs_def)
qed

text \<open>
  Claim C10. With \<open>ignore_zero\<close>, the filtering and every loss function keep position
  \<open>i\<close> if and only if some coordinate of \<open>target ! i\<close> is greater than zero, and a target
  row whose coordinates are all at most zero is excluded as the all-zero sentinel is:
  putting the sentinel in its place changes none of the four losses.
\<close>

theorem positive_coordinate_filter:
  assumes "length output = length target"
  shows "(let keep = filter (\<lambda>i. any_pos (target ! i)) [0..<length target];
              zs = map (\<lambda>i. (target ! i, output ! i)) keep
          in drop_padding True output target = Inr (map snd zs, map fst zs) \<and>
             iou_loss g output target True = Inr (fmean (map (\<lambda>(t, p). iou_term g t p) zs)) \<and>
             distance_iou_loss g output target True =
               Inr (fmean (map (\<lambda>(t, p). diou_term g t p) zs)) \<and>
             complete_iou_loss g output target True =
               Inr (fmean (map (\<lambda>(t, p). ciou_term g t p) zs)) \<and>
             tile_iou_loss g output target True =
               Inr (fmean (map (\<lambda>(t, p). ciou_term g t p) zs) +
                    seq_loss g (map snd zs) (map fst zs))) \<and>
         (\<forall>i<length target. all_nonpos (target ! i) \<longrightarrow>
            iou_loss g output (target[i := zero_box]) True = iou_loss g output target True \<and>
            distance_iou_loss g output (target[i := zero_box]) True =
              distance_iou_loss g output target True \<and>
            complete_iou_loss g output (target[i := zero_box]) True =
              complete_iou_loss g output target True \<and>
            tile_iou_loss g output (target[i := zero_box]) True =
              tile_iou_loss g output target True)"
proof -
  have len: "length output = length (target[i := zero_box])" for i
    using assms by simp
  have same: "kept_pairs True (target[i := zero_box]) output = kept_pairs True target output"
    if "i < length target" "all_nonpos (target ! i)" for i
    using assms that by (intro kept_pairs_sentinel all_nonpos_not_any_pos)
  have first: "?thesis \<longleftrightarrow> (\<forall>i<length target. all_nonpos (target ! i) \<longrightarrow>
            iou_loss g output (target[i := zero_box]) True = iou_loss g output target True \<and>
            distance_iou_loss g output (target[i := zero_box]) True =
              distance_iou_loss g output target True \<and>
            complete_iou_loss g output (target[i := zero_box]) True =
              complete_iou_loss g output target True \<and>
            tile_iou_loss g output (target[i := zero_box]) True =
              tile_iou_loss g output target True)"
    unfolding Let_def
    by (simp only: drop_padding_eq [OF assms] iou_loss_pairs [OF assms]
        distance_iou_loss_pairs [OF assms] complete_iou_loss_pairs [OF assms]
        tile_iou_loss_pairs [OF assms] kept_pairs_index [OF assms] simp_thms)
  show ?thesis
    unfolding first
    by (simp add: iou_loss_pairs [OF len] distance_iou_loss_pairs [OF len]
        complete_iou_loss_pairs [OF len] tile_iou_loss_pairs [OF len]
        iou_loss_pairs [OF assms] distance_iou_loss_pairs [OF assms]
        complete_iou_loss_pairs [OF assms] tile_iou_loss_pairs [OF assms] same)
qed


theorem positive_coordinate_filter_witness:
  "length [Box (Fin 5) (Fin 5) (Fin 6) (Fin 6), Box (Fin 1) (Fin 1) (Fin 3) (Fin 3)] =
   length [Box (Fin (-1)) (Fin (-1)) (Fin 0) (Fin 0), Box (Fin 0) (Fin 0) (Fin 4) (Fin 4)] \<and>
   all_nonpos (Box (Fin (-1)) (Fin (-1)) (Fin 0) (Fin 0)) \<and>
   iou_loss spec_geo [Box (Fin 5) (Fin 5) (Fin 6) (Fin 6), Box (Fin 1) (Fin 1) (Fin 3) (Fin 3)]
     [zero_box, Box (Fin 0) (Fin 0) (Fin 4) (Fin 4)] True =
   iou_loss spec_geo [Box (Fin 5) (Fin 5) (Fin 6) (Fin 6), Box (Fin 1) (Fin 1) (Fin 3) (Fin 3)]
     [Box (Fin (-1)) (Fin (-1)) (Fin 0) (Fin 0), Box (Fin 0) (Fin 0) (Fin 4) (Fin 4)] True \<and>
   iou_loss spec_geo [Box (Fin 5) (Fin 5) (Fin 6) (Fin 6), Box (Fin 1) (Fin 1) (Fin 3) (Fin 3)]
     [Box (Fin (-1)) (Fin (-1)) (Fin 0) (Fin 0), Box (Fin 0) (Fin 0) (Fin 4) (Fin 4)] True =
   Inr (Fin (3 / 4))"
  using positive_coordinate_filter
    [of "[Box (Fin 5) (Fin 5) (Fin 6) (Fin 6), Box (Fin 1) (Fin 1) (Fin 3) (Fin 3)]"
        "[Box (Fin (-1)) (Fin (-1)) (Fin 0) (Fin 0), Box (Fin 0) (Fin 0) (Fin 4) (Fin 4)]"
        spec_geo, THEN conjunct2, rule_format, of 0]
    positive_coordinate_filter
    [of "[Box (Fin 5) (Fin 5) (Fin 6) (Fin 6), Box (Fin 1) (Fin 1) (Fin 3) (Fin 3)]"
        "[Box (Fin (-1)) (Fin (-1)) (Fin 0) (Fin 0), Box (Fin 0) (Fin 0) (Fin 4) (Fin 4)]"
        spec_geo, THEN conjunct1]
  by (simp add: Let_def spec_geo_simps term_simps)

section \<open>Sequences filtered to nothing\<close>

lemma kept_pairs_all_padding:
  assumes "length ps = length ts" "\<forall>t\<in>set ts. \<not> any_pos t"
  shows "kept_pairs True ts ps = []"
  using assms(2) by (auto simp: kept_pairs_def filter_empty_conv dest: set_zip_leftD)

lemma fmean_Nil: "fmean [] = NaN"
  by (simp add: fmean_def fsum_def zero_tfloat_def)



text \<open>
  Claim C4 as stated fails: with a target made of the sentinel alone, \<^verbatim>\<open>iou_loss\<close>,
  \<^verbatim>\<open>distance_iou_loss\<close> and \<^verbatim>\<open>complete_iou_loss\<close> return NaN, the mean of the empty
  tensor. No guard replaces it.
\<close>

theorem empty_sequence_counterexample:
  "iou_loss spec_geo [Box (Fin 1) (Fin 1) (Fin 3) (Fin 3)]
     [Box (Fin 0) (Fin 0) (Fin 0) (Fin 0)] True = Inr NaN \<and>
   distance_iou_loss spec_geo [Box (Fin 1) (Fin 1) (Fin 3) (Fin 3)]
     [Box (Fin 0) (Fin 0) (Fin 0) (Fin 0)] True = Inr NaN \<and>
   complete_iou_loss spec_geo [Box (Fin 1) (Fin 1) (Fin 3) (Fin 3)]
     [Box (Fin 0) (Fin 0) (Fin 0) (Fin 0)] True = Inr NaN"
  by (simp add: iou_loss_pairs distance_iou_loss_pairs complete_iou_loss_pairs
      kept_pairs_def fmean_Nil)

text \<open>
  Claim C4, amended. When no target row has a coordinate greater than zero, filtering
  leaves the empty sequence, and \<^verbatim>\<open>iou_loss\<close>, \<^verbatim>\<open>distance_iou_loss\<close> and
  \<^verbatim>\<open>complete_iou_loss\<close> do not guard that case: each returns NaN, the mean of the empty
  tensor.
\<close>

theorem empty_sequence_nan:
  assumes "length output = length target" "\<forall>t\<in>set target. \<not> any_pos t"
  shows "iou_loss g output target True = Inr NaN \<and>
         distance_iou_loss g output target True = Inr NaN \<and>
         complete_iou_loss g output target True = Inr NaN"
  using assms(1)
  by (simp add: iou_loss_pairs distance_iou_loss_pairs complete_iou_loss_pairs
      kept_pairs_all_padding [OF assms] fmean_Nil)

theorem empty_sequence_nan_witness:
  "length [Box (Fin 1) (Fin 1) (Fin 3) (Fin 3), Box (Fin 0) (Fin 0) (Fin 1) (Fin 1)] =
   length [Box (Fin 0) (Fin 0) (Fin 0) (Fin 0), Box (Fin (-1)) (Fin 0) (Fin 0) (Fin 0)] \<and>
   \<not> any_pos (Box (Fin 0) (Fin 0) (Fin 0) (Fin 0)) \<and>
   \<not> any_pos (Box (Fin (-1)) (Fin 0) (Fin 0) (Fin 0)) \<and>
   iou_loss spec_geo [Box (Fin 1) (Fin 1) (Fin 3) (Fin 3), Box (Fin 0) (Fin 0) (Fin 1) (Fin 1)]
     [Box (Fin 0) (Fin 0) (Fin 0) (Fin 0), Box (Fin (-1)) (Fin 0) (Fin 0) (Fin 0)] True = Inr NaN \<and>
   distance_iou_loss spec_geo
     [Box (Fin 1) (Fin 1) (Fin 3) (Fin 3), Box (Fin 0) (Fin 0) (Fin 1) (Fin 1)]
     [Box (Fin 0) (Fin 0) (Fin 0) (Fin 0), Box (Fin (-1)) (Fin 0) (Fin 0) (Fin 0)] True = Inr NaN \<and>
   complete_iou_loss spec_geo
     [Box (Fin 1) (Fin 1) (Fin 3) (Fin 3), Box (Fin 0) (Fin 0) (Fin 1) (Fin 1)]
     [Box (Fin 0) (Fin 0) (Fin 0) (Fin 0), Box (Fin (-1)) (Fin 0) (Fin 0) (Fin 0)] True = Inr NaN"
  using empty_sequence_nan
    [of "[Box (Fin 1) (Fin 1) (Fin 3) (Fin 3), Box (Fin 0) (Fin 0) (Fin 1) (Fin 1)]"
        "[Box (Fin 0) (Fin 0) (Fin 0) (Fin 0), Box (Fin (-1)) (Fin 0) (Fin 0) (Fin 0)]" spec_geo]
  by simp

section \<open>The aspect-ratio weight\<close>

lemma farctan_NaN: "farctan x = NaN \<longleftrightarrow> x = NaN"
  by (cases x) simp_all












section \<open>A prediction equal to its target\<close>

lemma kept_pairs_replicate:
  "ignore_zero \<longrightarrow> any_pos a \<Longrightarrow>
   kept_pairs ignore_zero (replicate n a) (replicate n a) = replicate n (a, a)"
  by (simp add: kept_pairs_def zip_replicate)

lemma fmean_replicate_zero: "0 < n \<Longrightarrow> fmean (replicate n (Fin 0)) = Fin 0"
proof -
  have "fsum (replicate k (Fin 0)) = Fin 0" for k
    unfolding fsum_def by (induction k) (simp_all add: zero_tfloat_def)
  then show "0 < n \<Longrightarrow> fmean (replicate n (Fin 0)) = Fin 0"
    by (simp add: fmean_def)
qed

lemma spec_iou_self: "nondegenerate a \<Longrightarrow> spec_iou a a = Fin 1"
  by (cases a rule: nondegenerate.cases)
    (simp_all add: spec_iou_def spec_area_def zero_tfloat_def)

lemma spec_dist_term_self: "nondegenerate a \<Longrightarrow> dist_term spec_geo a a = Fin 0"
proof (cases a rule: nondegenerate.cases)
  case (1 x1 y1 x2 y2)
  assume "nondegenerate a"
  then have pos: "x1 < x2" "y1 < y2"
    using 1 by simp_all
  then show ?thesis
    unfolding 1
    by (simp add: dist_term_def spec_geo_def spec_diag_def fpow2_def not_sum_squares_lt_zero)
qed simp_all

text \<open>
  Claim C9 as stated fails. The box \<open>(-2, -2, -1, -1)\<close> is non-degenerate, but it has no
  coordinate greater than zero: with \<open>ignore_zero\<close>, the default, it is filtered out as
  padding, and both losses return NaN, the mean of the empty tensor, not 0.
\<close>

theorem self_pair_counterexample:
  "nondegenerate (Box (Fin (-2)) (Fin (-2)) (Fin (-1)) (Fin (-1))) \<and>
   iou_loss spec_geo [Box (Fin (-2)) (Fin (-2)) (Fin (-1)) (Fin (-1))]
     [Box (Fin (-2)) (Fin (-2)) (Fin (-1)) (Fin (-1))] True = Inr NaN \<and>
   distance_iou_loss spec_geo [Box (Fin (-2)) (Fin (-2)) (Fin (-1)) (Fin (-1))]
     [Box (Fin (-2)) (Fin (-2)) (Fin (-1)) (Fin (-1))] True = Inr NaN"
  by (simp add: iou_loss_pairs distance_iou_loss_pairs kept_pairs_def fmean_Nil)

text \<open>
  Claim C9, amended. For every non-degenerate box \<open>a\<close> that survives padding filtering
  (\<open>ignore_zero\<close> is off, or some coordinate of \<open>a\<close> is greater than zero), \<^verbatim>\<open>iou_loss\<close>
  and \<^verbatim>\<open>distance_iou_loss\<close> of a non-empty sequence whose every position pairs \<open>a\<close> with
  itself are exactly 0, in the geometry modelled from the specification: the IoU of \<open>a\<close>
  with itself is 1 and the distance between the coinciding centers is 0.
\<close>

theorem self_pair_zero:
  assumes "nondegenerate a" "0 < n" "ignore_zero \<longrightarrow> any_pos a"
  shows "iou_loss spec_geo (replicate n a) (replicate n a) ignore_zero = Inr 0 \<and>
         distance_iou_loss spec_geo (replicate n a) (replicate n a) ignore_zero = Inr 0"
proof -
  have i: "iou_term spec_geo a a = Fin 0"
    using spec_iou_self [OF assms(1)] by (simp add: iou_term_def spec_geo_def one_tfloat_def)
  have d: "diou_term spec_geo a a = Fin 0"
    using i spec_dist_term_self [OF assms(1)] by (simp add: diou_term_def)
  show ?thesis
    using assms(2)
    by (simp add: iou_loss_pairs distance_iou_loss_pairs kept_pairs_replicate [OF assms(3)]
        i d fmean_replicate_zero zero_tfloat_def)
qed

theorem self_pair_zero_witness:
  "nondegenerate (Box (Fin 0) (Fin 0) (Fin 2) (Fin 1)) \<and> (0::nat) < 3 \<and>
   any_pos (Box (Fin 0) (Fin 0) (Fin 2) (Fin 1)) \<and>
   iou_loss spec_geo (replicate 3 (Box (Fin 0) (Fin 0) (Fin 2) (Fin 1)))
     (replicate 3 (Box (Fin 0) (Fin 0) (Fin 2) (Fin 1))) True = Inr 0 \<and>
   distance_iou_loss spec_geo (replicate 3 (Box (Fin 0) (Fin 0) (Fin 2) (Fin 1)))
     (replicate 3 (Box (Fin 0) (Fin 0) (Fin 2) (Fin 1))) True = Inr 0"
  using self_pair_zero [of "Box (Fin 0) (Fin 0) (Fin 2) (Fin 1)" 3 True]
  by simp


section \<open>The batch losses\<close>

lemma batch_losses_values:
  "length outputs = length targets \<Longrightarrow>
   (\<forall>i<length targets. loss_func (outputs ! i) (targets ! i) = Inr (v i)) \<Longrightarrow>
   batch_losses loss_func outputs targets = Inr (map v [0..<length targets])"
proof (induction outputs targets arbitrary: v rule: list_induct2)
  case Nil
  then show ?case by simp
next
  case (Cons x xs y ys)
  have hd: "loss_func x y = Inr (v 0)"
    using Cons.prems by auto
  have "\<forall>i<length ys. loss_func (xs ! i) (ys ! i) = Inr ((v \<circ> Suc) i)"
    using Cons.prems by auto
  then have tl: "batch_losses loss_func xs ys = Inr (map (v \<circ> Suc) [0..<length ys])"
    by (rule Cons.IH)
  have "map v [0..<length (y # ys)] = v 0 # map (v \<circ> Suc) [0..<length ys]"
    by (simp add: upt_conv_Cons map_Suc_upt [symmetric] del: upt_Suc)
  then show ?case
    using hd tl by simp
qed

lemma batch_mean_values:
  assumes "length outputs = length targets" "targets \<noteq> []"
    "\<forall>i<length targets. loss_func (outputs ! i) (targets ! i) = Inr (v i)"
  shows "batch_mean loss_func outputs targets = Inr (fmean (map v [0..<length targets]))"
  using batch_losses_values [OF assms(1,3)] assms(2) by (simp add: batch_mean_def)

text \<open>
  Claim C3. On a batch of \<open>n > 0\<close> samples on which the per-sample losses return,
  \<^verbatim>\<open>structure_loss\<close> returns the pair of the classification loss and the box loss, not
  their sum: the first is the arithmetic mean (sum divided by \<open>n\<close>, no weights) of
  \<^verbatim>\<open>cls_loss\<close> of each sample, called with the same keyword arguments, the second the
  arithmetic mean of \<^verbatim>\<open>tile_iou_loss\<close> of each sample.
\<close>

theorem structure_loss_pair:
  assumes "length cls_output = n" "length cls_target = n"
    "length box_output = n" "length box_target = n" "0 < n"
    "\<forall>i<n. cls_loss F (cls_output ! i) (cls_target ! i) pad_idx smoothing weight = Inr (c i)"
    "\<forall>i<n. tile_iou_loss g (box_output ! i) (box_target ! i) ignore_zero = Inr (b i)"
  shows "structure_loss F g (cls_output, box_output) (cls_target, box_target)
           ignore_zero pad_idx smoothing weight =
         Inr (fsum (map c [0..<n]) / Fin (real n), fsum (map b [0..<n]) / Fin (real n))"
proof -
  have ne: "cls_target \<noteq> []" "box_target \<noteq> []"
    using assms(2,4,5) by auto
  have "batch_mean (\<lambda>p t. cls_loss F p t pad_idx smoothing weight) cls_output cls_target =
      Inr (fmean (map c [0..<n]))"
    using batch_mean_values [of cls_output cls_target
        "\<lambda>p t. cls_loss F p t pad_idx smoothing weight" c] assms(1,2,6) ne(1)
    by simp
  moreover have "batch_mean (\<lambda>p t. tile_iou_loss g p t ignore_zero) box_output box_target =
      Inr (fmean (map b [0..<n]))"
    using batch_mean_values [of box_output box_target
        "\<lambda>p t. tile_iou_loss g p t ignore_zero" b] assms(3,4,7) ne(2)
    by simp
  ultimately show ?thesis
    by (simp add: structure_loss_def fmean_def)
qed

theorem structure_loss_pair_witness:
  "structure_loss
     \<lparr>cross_entropy = (\<lambda>lg ll pad sm w. Inr (Fin (real (lg + ll)))), to_long = (\<lambda>l. l + 1)\<rparr>
     spec_geo
     ([1, 2], [[Box (Fin 1) (Fin 1) (Fin 3) (Fin 3)], [Box (Fin 2) (Fin 2) (Fin 6) (Fin 6)]])
     ([3, 4], [[Box (Fin 0) (Fin 0) (Fin 4) (Fin 4)], [Box (Fin 0) (Fin 0) (Fin 8) (Fin 8)]])
     True 0 (1 / 100) (None :: unit option) = Inr (Fin 6, Fin (3 / 2))"
proof -
  let ?F = "\<lparr>cross_entropy = (\<lambda>lg ll pad sm w. Inr (Fin (real (lg + ll)))),
      to_long = (\<lambda>l. l + 1)\<rparr> :: (nat, nat, nat, unit) functional"
  let ?co = "[1, 2 :: nat]" and ?ct = "[3, 4 :: nat]"
  let ?bo = "[[Box (Fin 1) (Fin 1) (Fin 3) (Fin 3)], [Box (Fin 2) (Fin 2) (Fin 6) (Fin 6)]]"
  let ?bt = "[[Box (Fin 0) (Fin 0) (Fin 4) (Fin 4)], [Box (Fin 0) (Fin 0) (Fin 8) (Fin 8)]]"
  let ?c = "\<lambda>i::nat. Fin (real (?co ! i + (?ct ! i + 1)))"
  let ?b = "\<lambda>i::nat. Fin (3 / 2)"
  have l: "length ?co = 2" "length ?ct = 2" "length ?bo = 2" "length ?bt = 2" "(0::nat) < 2"
    by simp_all
  have c: "\<forall>i<2. cls_loss ?F (?co ! i) (?ct ! i) 0 (1 / 100) None = Inr (?c i)"
    by (simp add: cls_loss_def)
  have t0: "tile_iou_loss spec_geo (?bo ! 0) (?bt ! 0) True = Inr (Fin (3 / 2))"
    by (simp add: tile_iou_loss_pairs seq_loss_tile_score kept_pairs_def spec_geo_simps
        term_simps)
  have t1: "tile_iou_loss spec_geo (?bo ! 1) (?bt ! 1) True = Inr (Fin (3 / 2))"
    by (simp add: tile_iou_loss_pairs seq_loss_tile_score kept_pairs_def spec_geo_simps
        term_simps)
  have b: "\<forall>i<2. tile_iou_loss spec_geo (?bo ! i) (?bt ! i) True = Inr (?b i)"
    using t0 t1 by (simp add: less_Suc_eq numeral_2_eq_2)
  show ?thesis
    using structure_loss_pair [OF l c b]
    by (simp add: fsum_def upt_rec numeral_2_eq_2)
qed

end
